theory Spec2Isabelle
  imports Main "HOL-Library.Sublist"
begin

section \<open>Byte slices and the two library calls of the extractor\<close>

text \<open>
  A Go \<^verbatim>\<open>[]byte\<close> and a Go \<^verbatim>\<open>string\<close> are both byte sequences; they are
  modelled as \<^typ>\<open>string\<close> (a list of 8-bit characters), so \<^verbatim>\<open>string(cause)\<close> is
  the identity.
\<close>

definition newline :: char where
  "newline = CHR 0x0A"

text \<open>
  \<^verbatim>\<open>bytes.Split(s, []byte{'\n'})\<close>: all pieces of \<open>s\<close> between separators, without the
  separators. There is always at least one piece: the empty slice gives one empty piece,
  and a trailing separator gives a last empty piece. The first argument is the piece
  being collected (reversed), the second what is left of the input.
\<close>

fun Split_acc :: "string \<Rightarrow> string \<Rightarrow> string list" where
  "Split_acc cur [] = [rev cur]"
| "Split_acc cur (c # cs) =
     (if c = newline then rev cur # Split_acc [] cs else Split_acc (c # cur) cs)"

definition Split_lines :: "string \<Rightarrow> string list" where
  "Split_lines s = Split_acc [] s"

text \<open>
  \<^verbatim>\<open>bytes.Contains(b, subslice)\<close>: \<open>subslice\<close> occurs in \<open>b\<close> as a contiguous run of
  bytes, at some offset.
\<close>

fun Contains :: "string \<Rightarrow> string \<Rightarrow> bool" where
  "Contains [] sub = (sub = [])"
| "Contains (c # cs) sub = (prefix sub (c # cs) \<or> Contains cs sub)"

section \<open>The table of diagnostic patterns\<close>

record buildFailureCause =
  pattern :: string
  weak :: bool

definition buildFailureCauses :: "buildFailureCause list" where
  "buildFailureCauses =
     [\<lparr>pattern = '': error: '', weak = False\<rparr>,
      \<lparr>pattern = '': fatal error: '', weak = False\<rparr>,
      \<lparr>pattern = '': undefined reference to'', weak = False\<rparr>,
      \<lparr>pattern = '': final link failed: '', weak = True\<rparr>,
      \<lparr>pattern = ''collect2: error: '', weak = True\<rparr>]"

section \<open>The scan of extractRootCause\<close>

text \<open>
  The variable \<^verbatim>\<open>cause\<close> of the source starts as the nil slice and is only ever assigned
  a line that contains a pattern. No pattern of the table is empty, so an assigned line
  is never empty and never nil: \<^verbatim>\<open>cause != nil\<close> holds exactly when an assignment has
  happened. \<^verbatim>\<open>cause\<close> is therefore an option, \<open>None\<close> for nil.

  \<open>scanPatterns\<close> is the inner loop over the table for one line: a weak entry is
  skipped (\<^verbatim>\<open>continue\<close>) when a cause is already set, and the first entry that is not
  skipped and occurs in the line assigns the line and leaves the loop (\<^verbatim>\<open>break\<close>).
\<close>

fun scanPatterns :: "buildFailureCause list \<Rightarrow> string option \<Rightarrow> string \<Rightarrow> string option" where
  "scanPatterns [] cause line = cause"
| "scanPatterns (p # ps) cause line =
     (if weak p \<and> cause \<noteq> None then scanPatterns ps cause line
      else if Contains line (pattern p) then Some line
      else scanPatterns ps cause line)"

text \<open>The outer loop over the lines, in their order, threading \<^verbatim>\<open>cause\<close> through.\<close>

fun scanLines :: "string list \<Rightarrow> string option \<Rightarrow> string option" where
  "scanLines [] cause = cause"
| "scanLines (line # rest) cause = scanLines rest (scanPatterns buildFailureCauses cause line)"

text \<open>
  The whole loop on a captured output, starting from the nil cause. This is what the
  specification calls its \<^verbatim>\<open>extract\<close>.
\<close>

definition extractCause :: "string \<Rightarrow> string option" where
  "extractCause out = scanLines (Split_lines out) None"

text \<open>
  A line is strong when an entry of the table that is not weak occurs in it, weak-matching
  when a weak entry occurs in it. A line can be both.
\<close>

definition strongLine :: "string \<Rightarrow> bool" where
  "strongLine line = list_ex (\<lambda>p. \<not> weak p \<and> Contains line (pattern p)) buildFailureCauses"

definition weakLine :: "string \<Rightarrow> bool" where
  "weakLine line = list_ex (\<lambda>p. weak p \<and> Contains line (pattern p)) buildFailureCauses"

section \<open>Errors and the store of verbose errors\<close>

text \<open>
  \<^verbatim>\<open>osutil.VerboseError\<close> is declared outside this file; the code reads its field
  \<^verbatim>\<open>Output\<close> and writes its field \<^verbatim>\<open>Title\<close>. A Go \<^verbatim>\<open>error\<close> is either a pointer to
  such an object or an error of some other kind, which is identified by its text.
  Verbose errors are reached through pointers and updated in place, so they live in a
  store. An address always denotes an allocated object: the runner hands out pointers to
  objects it has just allocated, and a nil \<^verbatim>\<open>*VerboseError\<close> wrapped in an \<^verbatim>\<open>error\<close> is
  not part of the model.
\<close>

type_synonym addr = nat

record VerboseError =
  Title :: string
  Output :: string

datatype error = VerboseErrorPtr addr | OtherError string

type_synonym heap = "addr \<Rightarrow> VerboseError"

definition extractRootCause :: "heap \<Rightarrow> error \<Rightarrow> heap \<times> error" where
  "extractRootCause h err =
     (case err of
        OtherError m \<Rightarrow> (h, err)
      | VerboseErrorPtr verr \<Rightarrow>
          (case extractCause (Output (h verr)) of
             None \<Rightarrow> (h, VerboseErrorPtr verr)
           | Some cause \<Rightarrow> (h(verr := (h verr)\<lparr>Title := cause\<rparr>), VerboseErrorPtr verr)))"

section \<open>Commands, durations and the outside world\<close>

text \<open>
  The fields of \<^verbatim>\<open>exec.Cmd\<close> that the code sets: the program, its arguments (without
  the program name), the working directory, and the environment, where \<open>None\<close> is the
  nil slice that makes the child inherit the environment of the caller.
\<close>

record Cmd =
  Path :: string
  Args :: "string list"
  Dir :: string
  Env :: "string list option"
  Sandboxed :: "(bool \<times> bool) option"

definition osutil_Command :: "string \<Rightarrow> string list \<Rightarrow> Cmd" where
  "osutil_Command bin args =
     \<lparr>Path = bin, Args = args, Dir = [], Env = None, Sandboxed = None\<rparr>"

text \<open>
  Modelled from the spec: \<^verbatim>\<open>osutil.Sandbox\<close> is not in this file. The specification
  describes two independent restrictions requested for a command before it is run; a
  successful call records the two flags in the command and leaves program, arguments,
  directory and environment as they are. Whether the call succeeds is decided by the
  outside world.
\<close>

definition sandboxed :: "Cmd \<Rightarrow> bool \<Rightarrow> bool \<Rightarrow> Cmd" where
  "sandboxed cmd user net = cmd\<lparr>Sandboxed := Some (user, net)\<rparr>"

text \<open>\<^verbatim>\<open>time.Duration\<close> counts nanoseconds; every duration used here fits 64 bits.\<close>

definition time_Second :: int where
  "time_Second = 1000000000"

definition time_Minute :: int where
  "time_Minute = 60 * time_Second"

definition time_Hour :: int where
  "time_Hour = 60 * time_Minute"

text \<open>\<^verbatim>\<open>strconv.Itoa\<close>: the decimal digits of an integer.\<close>

fun decimal :: "nat \<Rightarrow> string" where
  "decimal n =
     (if n < 10 then [char_of (48 + n)]
      else decimal (n div 10) @ [char_of (48 + n mod 10)])"

declare decimal.simps [simp del]

definition strconv_Itoa :: "int \<Rightarrow> string" where
  "strconv_Itoa i = (if i < 0 then CHR ''-'' # decimal (nat (- i)) else decimal (nat i))"

text \<open>
  Everything the three entry points call outside this file is a field of the world: the
  pure helpers of the standard library, the values read from the process (environment,
  processor count, working directory), the embedded script, and for each operation with an
  effect its outcome as a function of its arguments (\<open>None\<close> or \<open>Inr\<close> is success).
  Within one run of an entry point the calls of one operation differ in their arguments
  (the two runs of \<^verbatim>\<open>Build\<close> in their bound and command, the two copies of
  \<^verbatim>\<open>CreateImage\<close> in their source), so each step can fail or succeed on its own.
  \<^verbatim>\<open>osutil.Run\<close> also returns the captured output, which every caller here discards;
  the output that matters to the extractor is the one stored in the verbose error.
\<close>

record world =
  filepath_Join :: "string \<Rightarrow> string \<Rightarrow> string"
  filepath_FromSlash :: "string \<Rightarrow> string"
  runtime_NumCPU :: int
  os_Environ :: "string list"
  osutil_wd :: string
  createImageScript :: string
  VerboseError_Error :: "VerboseError \<Rightarrow> string"
  osutil_WriteFile :: "string \<Rightarrow> string \<Rightarrow> error option"
  osutil_SandboxChown :: "string \<Rightarrow> error option"
  osutil_Sandbox :: "Cmd \<Rightarrow> bool \<Rightarrow> bool \<Rightarrow> error option"
  osutil_Run :: "int \<Rightarrow> Cmd \<Rightarrow> error option"
  ioutil_TempDir :: "string \<Rightarrow> string \<Rightarrow> error + string"
  osutil_WriteExecFile :: "string \<Rightarrow> string \<Rightarrow> error option"
  osutil_CopyFile :: "string \<Rightarrow> string \<Rightarrow> error option"
  os_Chmod :: "string \<Rightarrow> nat \<Rightarrow> error option"

text \<open>The text of an error, as the verb \<^verbatim>\<open>%v\<close> of \<^verbatim>\<open>fmt.Errorf\<close> prints it.\<close>

definition errorText :: "world \<Rightarrow> heap \<Rightarrow> error \<Rightarrow> string" where
  "errorText w h err =
     (case err of OtherError m \<Rightarrow> m | VerboseErrorPtr a \<Rightarrow> VerboseError_Error w (h a))"

fun filepath_IsAbs :: "string \<Rightarrow> bool" where
  "filepath_IsAbs [] = False"
| "filepath_IsAbs (c # cs) = (c = CHR ''/'')"

text \<open>
  Modelled from the spec: \<^verbatim>\<open>osutil.Abs\<close> is not in this file. The specification asks
  for the resolved absolute path of an optional file, and the empty string when the file
  is not provided: the empty path stays empty, an absolute path stays as it is, and any
  other path is resolved against the working directory.
\<close>

definition osutil_Abs :: "world \<Rightarrow> string \<Rightarrow> string" where
  "osutil_Abs w path =
     (if path = [] then []
      else if filepath_IsAbs path then path
      else osutil_wd w @ CHR ''/'' # path)"

section \<open>Effects as a trace\<close>

text \<open>
  Each call that touches the file system or starts a process is recorded, with its
  arguments, in the order in which it is made. An entry point returns the trace of its
  calls next to its result.
\<close>

datatype event =
    EvWriteFile string string
  | EvSandboxChown string
  | EvSandbox Cmd bool bool
  | EvRun int Cmd
  | EvTempDir string string
  | EvRemoveAll string
  | EvWriteExecFile string string
  | EvCopyFile string string
  | EvChmod string nat

text \<open>\<open>emit\<close> puts a call in front of what follows it; \<open>on_exit\<close> is a deferred call,
  made after everything else when the function returns.\<close>

definition emit :: "event \<Rightarrow> event list \<times> 'a \<Rightarrow> event list \<times> 'a" where
  "emit ev k = (ev # fst k, snd k)"

definition on_exit :: "event \<Rightarrow> event list \<times> 'a \<Rightarrow> event list \<times> 'a" where
  "on_exit ev k = (fst k @ [ev], snd k)"

fun runs :: "event list \<Rightarrow> (int \<times> Cmd) list" where
  "runs [] = []"
| "runs (EvRun t c # evs) = (t, c) # runs evs"
| "runs (ev # evs) = runs evs"

fun isSandbox :: "event \<Rightarrow> bool" where
  "isSandbox (EvSandbox c u n) = True"
| "isSandbox ev = False"

section \<open>The kernel build pipeline\<close>

definition Build :: "world \<Rightarrow> heap \<Rightarrow> string \<Rightarrow> string \<Rightarrow> string \<Rightarrow> event list \<times> heap \<times> error option" where
  "Build w h dir compiler config =
     (let configFile = filepath_Join w dir ''.config'' in
      emit (EvWriteFile configFile config)
      (case osutil_WriteFile w configFile config of
         Some err \<Rightarrow>
           ([], h, Some (OtherError (''failed to write config file: '' @ errorText w h err)))
       | None \<Rightarrow>
      emit (EvSandboxChown configFile)
      (case osutil_SandboxChown w configFile of
         Some err \<Rightarrow> ([], h, Some err)
       | None \<Rightarrow>
      (let cmd = osutil_Command ''make'' [''oldconfig'', ''CC='' @ compiler] in
      emit (EvSandbox cmd True True)
      (case osutil_Sandbox w cmd True True of
         Some err \<Rightarrow> ([], h, Some err)
       | None \<Rightarrow>
      (let cmd = (sandboxed cmd True True)\<lparr>Dir := dir\<rparr> in
      emit (EvRun (10 * time_Minute) cmd)
      (case osutil_Run w (10 * time_Minute) cmd of
         Some err \<Rightarrow> ([], h, Some err)
       | None \<Rightarrow>
      (let cpu = strconv_Itoa (runtime_NumCPU w);
           cmd = osutil_Command ''make'' [''bzImage'', ''-j'', cpu, ''CC='' @ compiler] in
      emit (EvSandbox cmd True True)
      (case osutil_Sandbox w cmd True True of
         Some err \<Rightarrow> ([], h, Some err)
       | None \<Rightarrow>
      (let cmd = (sandboxed cmd True True)\<lparr>Dir := dir\<rparr> in
      emit (EvRun (3 * time_Hour) cmd)
      (case osutil_Run w (3 * time_Hour) cmd of
         Some err \<Rightarrow> (case extractRootCause h err of (h', err') \<Rightarrow> ([], h', Some err'))
       | None \<Rightarrow> ([], h, None))))))))))))"

definition Clean :: "world \<Rightarrow> string \<Rightarrow> event list \<times> error option" where
  "Clean w dir =
     (let cpu = strconv_Itoa (runtime_NumCPU w);
          cmd = osutil_Command ''make'' [''distclean'', ''-j'', cpu] in
      emit (EvSandbox cmd True True)
      (case osutil_Sandbox w cmd True True of
         Some err \<Rightarrow> ([], Some err)
       | None \<Rightarrow>
      (let cmd = (sandboxed cmd True True)\<lparr>Dir := dir\<rparr> in
      emit (EvRun (10 * time_Minute) cmd)
      ([], osutil_Run w (10 * time_Minute) cmd))))"

section \<open>The image assembly pipeline\<close>

text \<open>The file mode \<^verbatim>\<open>0600\<close> is octal. The six path arguments of \<^verbatim>\<open>CreateImage\<close> are
  Go strings like the first three.\<close>

definition mode_0600 :: nat where
  "mode_0600 = 6 * 8 * 8"

type_synonym path = string

definition CreateImage ::
  "world \<Rightarrow> heap \<Rightarrow> string \<Rightarrow> string \<Rightarrow> string \<Rightarrow> path \<Rightarrow> path \<Rightarrow> path \<Rightarrow> path
     \<Rightarrow> path \<Rightarrow> path \<Rightarrow> event list \<times> error option" where
  "CreateImage w h targetOS targetArch vmType kernelDir userspaceDir cmdlineFile sysctlFile
       imageFile sshkey =
     (if targetOS \<noteq> ''linux'' \<or> targetArch \<noteq> ''amd64'' then
        ([], Some (OtherError ''only linux/amd64 is supported''))
      else if vmType \<noteq> ''qemu'' \<and> vmType \<noteq> ''gce'' then
        ([], Some (OtherError ''images can be built only for qemu/gce machines''))
      else
      emit (EvTempDir [] ''syz-build'')
      (case ioutil_TempDir w [] ''syz-build'' of
         Inl err \<Rightarrow> ([], Some err)
       | Inr tempDir \<Rightarrow>
      on_exit (EvRemoveAll tempDir)
      (let scriptFile = filepath_Join w tempDir ''create.sh'' in
      emit (EvWriteExecFile scriptFile (createImageScript w))
      (case osutil_WriteExecFile w scriptFile (createImageScript w) of
         Some err \<Rightarrow>
           ([], Some (OtherError (''failed to write script file: '' @ errorText w h err)))
       | None \<Rightarrow>
      (let bzImage = filepath_Join w kernelDir (filepath_FromSlash w ''arch/x86/boot/bzImage'');
           cmd = osutil_Command scriptFile [userspaceDir, bzImage];
           cmd = cmd\<lparr>Dir := tempDir\<rparr>;
           cmd = cmd\<lparr>Env := Some ([] @ os_Environ w)\<rparr>;
           cmd = cmd\<lparr>Env := Some ((case Env cmd of None \<Rightarrow> [] | Some env \<Rightarrow> env) @
                   [''SYZ_VM_TYPE='' @ vmType,
                    ''SYZ_CMDLINE_FILE='' @ osutil_Abs w cmdlineFile,
                    ''SYZ_SYSCTL_FILE='' @ osutil_Abs w sysctlFile])\<rparr> in
      emit (EvRun time_Hour cmd)
      (case osutil_Run w time_Hour cmd of
         Some err \<Rightarrow> ([], Some (OtherError (''image build failed: '' @ errorText w h err)))
       | None \<Rightarrow>
      emit (EvCopyFile (filepath_Join w tempDir ''disk.raw'') imageFile)
      (case osutil_CopyFile w (filepath_Join w tempDir ''disk.raw'') imageFile of
         Some err \<Rightarrow> ([], Some err)
       | None \<Rightarrow>
      emit (EvCopyFile (filepath_Join w tempDir ''key'') sshkey)
      (case osutil_CopyFile w (filepath_Join w tempDir ''key'') sshkey of
         Some err \<Rightarrow> ([], Some err)
       | None \<Rightarrow>
      emit (EvChmod sshkey mode_0600)
      (case os_Chmod w sshkey mode_0600 of
         Some err \<Rightarrow> ([], Some err)
       | None \<Rightarrow> ([], None))))))))))"

section \<open>Sample inputs\<close>

text \<open>
  A world in which every call succeeds, a store whose objects all carry a captured
  output with one compiler error, and variants of the world in which one step fails.
  They are the concrete inputs at which the theorems below are instantiated.
\<close>

definition sample_world :: world where
  "sample_world =
     \<lparr>filepath_Join = (\<lambda>a b. a @ CHR ''/'' # b),
      filepath_FromSlash = (\<lambda>p. p),
      runtime_NumCPU = 4,
      os_Environ = [''PATH=/bin''],
      osutil_wd = ''/work'',
      createImageScript = ''#!/bin/bash'',
      VerboseError_Error = (\<lambda>v. Title v @ newline # Output v),
      osutil_WriteFile = (\<lambda>f d. None),
      osutil_SandboxChown = (\<lambda>f. None),
      osutil_Sandbox = (\<lambda>c u n. None),
      osutil_Run = (\<lambda>t c. None),
      ioutil_TempDir = (\<lambda>d p. Inr ''/tmp/syz-build1''),
      osutil_WriteExecFile = (\<lambda>f d. None),
      osutil_CopyFile = (\<lambda>s d. None),
      os_Chmod = (\<lambda>f m. None)\<rparr>"

definition sample_heap :: heap where
  "sample_heap = (\<lambda>a. \<lparr>Title = ''failed to run make'', Output = ''a.c:1: error: x''\<rparr>)"

definition quiet_heap :: heap where
  "quiet_heap = (\<lambda>a. \<lparr>Title = ''failed to run make'', Output = ''make: *** stopped''\<rparr>)"

definition world_write_fails :: world where
  "world_write_fails =
     sample_world\<lparr>osutil_WriteFile := (\<lambda>f d. Some (OtherError ''disk full''))\<rparr>"

definition world_compile_fails :: world where
  "world_compile_fails =
     sample_world\<lparr>osutil_Run :=
       (\<lambda>t c. if t = 3 * time_Hour then Some (VerboseErrorPtr 0) else None)\<rparr>"

definition world_clean_fails :: world where
  "world_clean_fails =
     sample_world\<lparr>osutil_Run := (\<lambda>t c. Some (VerboseErrorPtr 0))\<rparr>"

definition world_copy_fails :: world where
  "world_copy_fails =
     sample_world\<lparr>osutil_CopyFile := (\<lambda>s d. Some (OtherError ''no space left''))\<rparr>"

definition world_chmod_fails :: world where
  "world_chmod_fails =
     sample_world\<lparr>os_Chmod := (\<lambda>f m. Some (OtherError ''not permitted''))\<rparr>"

definition world_script_fails :: world where
  "world_script_fails =
     sample_world\<lparr>osutil_Run := (\<lambda>t c. Some (OtherError ''exit status 1''))\<rparr>"

section \<open>What the scan computes\<close>

text \<open>One line: a strong line always becomes the cause; any other line leaves a cause
  that is set alone, and becomes the cause only when none is set and it is weak-matching.\<close>

lemma scanPatterns_line:
  "scanPatterns buildFailureCauses cause line =
     (if strongLine line then Some line
      else if cause \<noteq> None then cause
      else if weakLine line then Some line else None)"
  by (simp add: buildFailureCauses_def strongLine_def weakLine_def)

text \<open>All lines: the last strong line if there is one, else the cause already set, else
  the first weak-matching line.\<close>

lemma scanLines_result:
  "scanLines ls cause =
     (if filter strongLine ls \<noteq> [] then Some (last (filter strongLine ls))
      else if cause \<noteq> None then cause
      else find weakLine ls)"
proof (induction ls arbitrary: cause)
  case Nil
  then show ?case by (cases cause) simp_all
next
  case (Cons line rest)
  show ?case
    by (cases cause) (simp_all add: Cons.IH scanPatterns_line)
qed

lemma extractCause_result:
  "extractCause out =
     (if filter strongLine (Split_lines out) \<noteq> []
      then Some (last (filter strongLine (Split_lines out)))
      else find weakLine (Split_lines out))"
  by (simp add: extractCause_def scanLines_result)

text \<open>\<open>Contains\<close> is occurrence as a contiguous run.\<close>

lemma Contains_iff: "Contains b sub \<longleftrightarrow> (\<exists>pre post. b = pre @ sub @ post)"
proof (induction b)
  case Nil
  then show ?case by auto
next
  case (Cons c cs)
  show ?case
  proof
    assume "Contains (c # cs) sub"
    then consider "prefix sub (c # cs)" | "Contains cs sub" by auto
    then show "\<exists>pre post. c # cs = pre @ sub @ post"
    proof cases
      case 1
      then obtain post where "c # cs = sub @ post" by (auto simp: prefix_def)
      then have "c # cs = [] @ sub @ post" by simp
      then show ?thesis by blast
    next
      case 2
      then obtain pre post where "cs = pre @ sub @ post" using Cons.IH by blast
      then have "c # cs = (c # pre) @ sub @ post" by simp
      then show ?thesis by blast
    qed
  next
    assume "\<exists>pre post. c # cs = pre @ sub @ post"
    then obtain pre post where eq: "c # cs = pre @ sub @ post" by blast
    show "Contains (c # cs) sub"
    proof (cases pre)
      case Nil
      with eq have "prefix sub (c # cs)" by (simp add: prefix_def)
      then show ?thesis by simp
    next
      case (Cons d ds)
      with eq have "cs = ds @ sub @ post" by simp
      then have "Contains cs sub" using Cons.IH by blast
      then show ?thesis by simp
    qed
  qed
qed

text \<open>
  The last entry of the table has the first entry inside it: a line with
  \<^verbatim>\<open>collect2: error: \<close> also has \<^verbatim>\<open>: error: \<close>, which the inner loop tests first.
\<close>

lemma Contains_collect2_error:
  assumes "Contains line ''collect2: error: ''"
  shows "Contains line '': error: ''"
proof -
  from assms obtain pre post where "line = pre @ ''collect2: error: '' @ post"
    using Contains_iff by blast
  then have "line = (pre @ ''collect2'') @ '': error: '' @ post" by simp
  then show ?thesis using Contains_iff by blast
qed

lemma collect2_is_strong:
  "Contains line ''collect2: error: '' \<Longrightarrow> strongLine line"
  by (simp add: strongLine_def buildFailureCauses_def Contains_collect2_error)

text \<open>
  So a line with the last entry of the table is assigned whether or not a cause is set:
  the entry never acts as a weak entry.
\<close>

lemma collect2_line_always_assigned:
  "Contains line ''collect2: error: '' \<Longrightarrow>
     scanPatterns buildFailureCauses cause line = Some line"
  by (simp add: scanPatterns_line collect2_is_strong)

lemmas trace_defs = emit_def on_exit_def Let_def

lemmas sample_defs = sample_world_def sample_heap_def quiet_heap_def world_write_fails_def
  world_compile_fails_def world_clean_fails_def world_copy_fails_def world_chmod_fails_def
  world_script_fails_def

lemmas eval_defs = extractCause_def Split_lines_def newline_def buildFailureCauses_def
  strongLine_def weakLine_def

lemmas time_defs = time_Hour_def time_Minute_def time_Second_def

lemma runs_append: "runs (xs @ ys) = runs xs @ runs ys"
  by (induction xs rule: runs.induct) simp_all

text \<open>Every process that \<^verbatim>\<open>Build\<close> starts has been through \<^verbatim>\<open>osutil.Sandbox\<close>.\<close>

lemma Build_runs_sandboxed:
  "(t, c) \<in> set (runs (fst (Build w h dir compiler config))) \<Longrightarrow>
     Sandboxed c = Some (True, True)"
  unfolding Build_def
  by (auto simp: trace_defs sandboxed_def split: option.splits prod.splits)

section \<open>Claims about the root-cause extractor\<close>

text \<open>
  C1, as amended. The claim reads: the first line that matches a strong pattern becomes
  the title, and no later match changes it. The code assigns the cause at every strong
  line, whether or not a cause is set, so what holds is: a strong line always becomes the
  candidate, and for every output with at least one strong line the extracted title is
  the last strong line of the output.
\<close>

theorem last_strong_line_wins:
  "(strongLine line \<longrightarrow> scanPatterns buildFailureCauses cause line = Some line)
   \<and> (filter strongLine (Split_lines (Output (h verr))) \<noteq> [] \<longrightarrow>
        extractCause (Output (h verr))
          = Some (last (filter strongLine (Split_lines (Output (h verr)))))
        \<and> extractRootCause h (VerboseErrorPtr verr)
          = (h(verr := (h verr)\<lparr>Title :=
                 last (filter strongLine (Split_lines (Output (h verr))))\<rparr>),
             VerboseErrorPtr verr))"
  by (simp add: scanPatterns_line extractCause_result extractRootCause_def)

text \<open>The amended C1 at an output with two compiler errors: the second one is the title.\<close>

theorem last_strong_line_wins_witness:
  "strongLine ''b.c:2: error: y''
   \<and> scanPatterns buildFailureCauses (Some ''a.c:1: error: x'') ''b.c:2: error: y''
       = Some ''b.c:2: error: y''
   \<and> filter strongLine (Split_lines (Output
         ((\<lambda>a. \<lparr>Title = ''failed'',
                 Output = ''a.c:1: error: x'' @ [newline] @ ''b.c:2: error: y''\<rparr>) (0::nat))))
       = [''a.c:1: error: x'', ''b.c:2: error: y'']
   \<and> fst (extractRootCause
         (\<lambda>a. \<lparr>Title = ''failed'',
                 Output = ''a.c:1: error: x'' @ [newline] @ ''b.c:2: error: y''\<rparr>)
         (VerboseErrorPtr 0)) 0
       = \<lparr>Title = ''b.c:2: error: y'',
          Output = ''a.c:1: error: x'' @ [newline] @ ''b.c:2: error: y''\<rparr>"
  using last_strong_line_wins
    [where line = "''b.c:2: error: y''" and cause = "Some ''a.c:1: error: x''"
       and h = "\<lambda>a. \<lparr>Title = ''failed'',
                 Output = ''a.c:1: error: x'' @ [newline] @ ''b.c:2: error: y''\<rparr>"
       and verr = 0]
  by (simp add: eval_defs)

text \<open>
  C1 as it is written fails: in an output with two compiler errors the first strong line
  is the first error, and the extracted line is the second.
\<close>

theorem first_strong_line_counterexample:
  "find strongLine (Split_lines (''a.c:1: error: x'' @ [newline] @ ''b.c:2: error: y''))
     = Some ''a.c:1: error: x''
   \<and> extractCause (''a.c:1: error: x'' @ [newline] @ ''b.c:2: error: y'')
     = Some ''b.c:2: error: y''
   \<and> ''b.c:2: error: y'' \<noteq> ''a.c:1: error: x''"
  by (simp add: eval_defs)

text \<open>
  C2. The claim: weak patterns are a fallback only, and a later weak match never replaces
  a candidate that is already set; in an output whose lines match weak patterns only, the
  first of them is extracted. The code at the output of a failed link, a line with
  \<^verbatim>\<open>: final link failed: \<close> followed by the summary line with \<^verbatim>\<open>collect2: error: \<close>:
  both lines are weak-matching and the first has no strong entry in it, yet the second
  line replaces the candidate that the first has set, and the second line is extracted.
  The summary line is assigned through the strong entry \<^verbatim>\<open>: error: \<close>, which occurs
  inside the weak entry \<^verbatim>\<open>collect2: error: \<close> and comes before it in the table.
\<close>

theorem weak_collect2_entry_shadowed:
  "weakLine ''ld: final link failed: bad value''
   \<and> \<not> strongLine ''ld: final link failed: bad value''
   \<and> weakLine ''collect2: error: ld returned 1 exit status''
   \<and> strongLine ''collect2: error: ld returned 1 exit status''
   \<and> scanPatterns buildFailureCauses (Some ''ld: final link failed: bad value'')
         ''collect2: error: ld returned 1 exit status''
       = Some ''collect2: error: ld returned 1 exit status''
   \<and> extractCause (''ld: final link failed: bad value'' @ [newline]
         @ ''collect2: error: ld returned 1 exit status'')
       = Some ''collect2: error: ld returned 1 exit status''"
  by (simp add: eval_defs)

text \<open>
  What holds of the lines in which no strong entry occurs. When some line of the output
  is strong, the extracted line is a strong line. When no line of the output is strong,
  the extracted line is the first weak-matching line. And a line that is not strong never
  replaces a cause that is already set.
\<close>

lemma weak_only_lines_fallback:
  "((\<exists>line \<in> set (Split_lines out). strongLine line) \<longrightarrow>
       (\<exists>l. extractCause out = Some l \<and> strongLine l))
   \<and> ((\<forall>line \<in> set (Split_lines out). \<not> strongLine line) \<longrightarrow>
       extractCause out = find weakLine (Split_lines out))
   \<and> (\<not> strongLine line \<longrightarrow> scanPatterns buildFailureCauses (Some c) line = Some c)"
proof (intro conjI impI)
  assume "\<exists>line \<in> set (Split_lines out). strongLine line"
  then have ne: "filter strongLine (Split_lines out) \<noteq> []"
    by (simp add: filter_empty_conv)
  then have "last (filter strongLine (Split_lines out))
               \<in> set (filter strongLine (Split_lines out))"
    by (rule last_in_set)
  then have "strongLine (last (filter strongLine (Split_lines out)))"
    by simp
  with ne show "\<exists>l. extractCause out = Some l \<and> strongLine l"
    by (simp add: extractCause_result)
next
  assume "\<forall>line \<in> set (Split_lines out). \<not> strongLine line"
  then have "filter strongLine (Split_lines out) = []"
    by (simp add: filter_empty_conv)
  then show "extractCause out = find weakLine (Split_lines out)"
    by (simp add: extractCause_result)
next
  assume "\<not> strongLine line"
  then show "scanPatterns buildFailureCauses (Some c) line = Some c"
    by (simp add: scanPatterns_line)
qed

text \<open>
  Two outputs: a failed final link before a compiler error, where the compiler error is
  extracted; and two lines reporting a failed final link, where the first is extracted
  and kept.
\<close>

lemma weak_only_lines_fallback_example:
  "(\<exists>line \<in> set (Split_lines (''ld: final link failed: bad'' @ [newline] @ ''a.c:1: error: x'')).
       strongLine line)
   \<and> extractCause (''ld: final link failed: bad'' @ [newline] @ ''a.c:1: error: x'')
       = Some ''a.c:1: error: x''
   \<and> filter strongLine (Split_lines
           (''ld: final link failed: bad'' @ [newline] @ ''ld2: final link failed: worse''))
       = []
   \<and> extractCause (''ld: final link failed: bad'' @ [newline] @ ''ld2: final link failed: worse'')
       = Some ''ld: final link failed: bad''
   \<and> \<not> strongLine ''ld2: final link failed: worse''
   \<and> scanPatterns buildFailureCauses (Some ''ld: final link failed: bad'')
         ''ld2: final link failed: worse'' = Some ''ld: final link failed: bad''"
  using weak_only_lines_fallback
    [where out = "''ld: final link failed: bad'' @ [newline] @ ''a.c:1: error: x''"
       and line = "''ld2: final link failed: worse''" and c = "''ld: final link failed: bad''"]
    weak_only_lines_fallback
    [where out = "''ld: final link failed: bad'' @ [newline] @ ''ld2: final link failed: worse''"
       and line = "''ld2: final link failed: worse''" and c = "''ld: final link failed: bad''"]
  by (simp add: eval_defs)

text \<open>
  C6. The table has exactly five entries, in this order: the three strong patterns, then
  the two weak ones. Within one line the first entry of the table that occurs in the line
  decides what happens, and no later entry is consulted: a strong entry assigns the line,
  a weak entry assigns it when no cause is set.
\<close>

theorem table_first_entry_wins:
  "length buildFailureCauses = 5
   \<and> map pattern buildFailureCauses =
       ['': error: '', '': fatal error: '', '': undefined reference to'',
        '': final link failed: '', ''collect2: error: '']
   \<and> map weak buildFailureCauses = [False, False, False, True, True]
   \<and> scanPatterns buildFailureCauses cause line =
       (case find (\<lambda>p. Contains line (pattern p)) buildFailureCauses of
          None \<Rightarrow> cause
        | Some p \<Rightarrow> if weak p \<and> cause \<noteq> None then cause else Some line)"
  by (simp add: buildFailureCauses_def)

text \<open>
  C6 at a line in which both a strong and a weak entry occur: the strong entry comes
  first in the table, so the line replaces the cause that is set.
\<close>

theorem table_first_entry_wins_witness:
  "find (\<lambda>p. Contains ''ld: x.c: error: y: final link failed: z'' (pattern p)) buildFailureCauses
     = Some \<lparr>pattern = '': error: '', weak = False\<rparr>
   \<and> scanPatterns buildFailureCauses (Some ''earlier'') ''ld: x.c: error: y: final link failed: z''
     = Some ''ld: x.c: error: y: final link failed: z''"
  using table_first_entry_wins
    [where line = "''ld: x.c: error: y: final link failed: z''" and cause = "Some ''earlier''"]
  by (simp add: eval_defs)

text \<open>
  C7. When no line of the captured output contains any pattern of the table, no cause is
  extracted, and the error comes back as it was given, with the store untouched: the
  title it had stands.
\<close>

theorem no_match_no_title:
  assumes "\<forall>line \<in> set (Split_lines (Output (h verr))).
             \<forall>p \<in> set buildFailureCauses. \<not> Contains line (pattern p)"
  shows "extractCause (Output (h verr)) = None
         \<and> extractRootCause h (VerboseErrorPtr verr) = (h, VerboseErrorPtr verr)"
proof -
  have none: "\<not> strongLine line \<and> \<not> weakLine line"
    if "line \<in> set (Split_lines (Output (h verr)))" for line
    using assms that by (auto simp: strongLine_def weakLine_def list_ex_iff)
  have "filter strongLine (Split_lines (Output (h verr))) = []"
    using none by (simp add: filter_empty_conv)
  moreover have "find weakLine (Split_lines (Output (h verr))) = None"
    using none by (simp add: find_None_iff)
  ultimately have "extractCause (Output (h verr)) = None"
    by (simp add: extractCause_result)
  then show ?thesis by (simp add: extractRootCause_def)
qed

text \<open>C7 at a store whose outputs have no diagnostic line.\<close>

theorem no_match_no_title_witness:
  "Split_lines (Output (quiet_heap 0)) = [''make: *** stopped'']
   \<and> extractCause (Output (quiet_heap 0)) = None
   \<and> extractRootCause quiet_heap (VerboseErrorPtr 0) = (quiet_heap, VerboseErrorPtr 0)"
proof -
  have lines: "Split_lines (Output (quiet_heap 0)) = [''make: *** stopped'']"
    by (simp add: eval_defs quiet_heap_def)
  have hyp: "\<forall>line \<in> set (Split_lines (Output (quiet_heap 0))).
      \<forall>p \<in> set buildFailureCauses. \<not> Contains line (pattern p)"
    by (simp add: eval_defs quiet_heap_def)
  show ?thesis
    using lines no_match_no_title [where h = quiet_heap and verr = 0, OF hyp] by simp
qed

text \<open>
  C10. Extraction returns the error it was given. Of the store it changes at most the
  title of the object that the error points to: every object keeps its captured output,
  every other object is unchanged, and an error that is not a verbose error leaves the
  whole store unchanged.
\<close>

theorem extractRootCause_frame:
  "snd (extractRootCause h err) = err
   \<and> Output (fst (extractRootCause h err) a) = Output (h a)
   \<and> (err \<noteq> VerboseErrorPtr a \<longrightarrow> fst (extractRootCause h err) a = h a)
   \<and> (\<exists>t. fst (extractRootCause h err) a = (h a)\<lparr>Title := t\<rparr>)
   \<and> extractRootCause h (OtherError m) = (h, OtherError m)"
proof -
  have same: "\<exists>t. v = v\<lparr>Title := t\<rparr>" for v :: VerboseError
  proof
    show "v = v\<lparr>Title := Title v\<rparr>" by simp
  qed
  show ?thesis
    by (cases err) (auto simp: extractRootCause_def same split: option.splits)
qed

text \<open>
  C10 at a verbose error whose output has a compiler error: the same pointer comes back,
  the object at another address is unchanged, and the output of the object is kept while
  its title is replaced.
\<close>

theorem extractRootCause_frame_witness:
  "snd (extractRootCause sample_heap (VerboseErrorPtr 0)) = VerboseErrorPtr 0
   \<and> VerboseErrorPtr 0 \<noteq> VerboseErrorPtr 1
   \<and> fst (extractRootCause sample_heap (VerboseErrorPtr 0)) 1 = sample_heap 1
   \<and> fst (extractRootCause sample_heap (VerboseErrorPtr 0)) 0
       = \<lparr>Title = ''a.c:1: error: x'', Output = ''a.c:1: error: x''\<rparr>
   \<and> extractRootCause sample_heap (OtherError ''exit status 2'')
       = (sample_heap, OtherError ''exit status 2'')"
  using extractRootCause_frame
    [where h = sample_heap and err = "VerboseErrorPtr 0" and a = 1
       and m = "''exit status 2''"]
  by (simp add: extractRootCause_def eval_defs sample_heap_def)

section \<open>Claims about the pipelines\<close>

text \<open>
  C3. A target other than linux/amd64, and a machine type other than qemu and gce, are
  rejected with an error that names the restriction, and the trace of the call is empty:
  no directory has been created, no file written and no process started.
\<close>

theorem CreateImage_rejects_early:
  assumes "\<not> (targetOS = ''linux'' \<and> targetArch = ''amd64''
              \<and> (vmType = ''qemu'' \<or> vmType = ''gce''))"
  shows "CreateImage w h targetOS targetArch vmType kernelDir userspaceDir cmdlineFile
           sysctlFile imageFile sshkey =
         ([], Some (OtherError
            (if targetOS \<noteq> ''linux'' \<or> targetArch \<noteq> ''amd64''
             then ''only linux/amd64 is supported''
             else ''images can be built only for qemu/gce machines'')))"
  using assms unfolding CreateImage_def by auto

text \<open>C3 at a Windows target and at an unknown machine type.\<close>

theorem CreateImage_rejects_early_witness:
  "CreateImage sample_world sample_heap ''windows'' ''amd64'' ''qemu'' ''/k'' ''/u'' [] []
       ''/out/image'' ''/out/key''
     = ([], Some (OtherError ''only linux/amd64 is supported''))
   \<and> CreateImage sample_world sample_heap ''linux'' ''amd64'' ''kvm'' ''/k'' ''/u'' [] []
       ''/out/image'' ''/out/key''
     = ([], Some (OtherError ''images can be built only for qemu/gce machines''))"
  using
    CreateImage_rejects_early
      [where targetOS = "''windows''" and targetArch = "''amd64''" and vmType = "''qemu''"
         and w = sample_world and h = sample_heap and kernelDir = "''/k''"
         and userspaceDir = "''/u''" and cmdlineFile = "[]" and sysctlFile = "[]"
         and imageFile = "''/out/image''" and sshkey = "''/out/key''"]
    CreateImage_rejects_early
      [where targetOS = "''linux''" and targetArch = "''amd64''" and vmType = "''kvm''"
         and w = sample_world and h = sample_heap and kernelDir = "''/k''"
         and userspaceDir = "''/u''" and cmdlineFile = "[]" and sysctlFile = "[]"
         and imageFile = "''/out/image''" and sshkey = "''/out/key''"]
  by simp

text \<open>
  C4. Once the staging directory has been created, the last call that
  \<^verbatim>\<open>CreateImage\<close> makes is the removal of that directory, whatever happens in between:
  the script cannot be written, the script fails, a copy fails, the mode change fails, or
  everything succeeds.
\<close>

theorem staging_dir_removed:
  assumes "targetOS = ''linux''" and "targetArch = ''amd64''"
      and "vmType = ''qemu'' \<or> vmType = ''gce''"
      and "ioutil_TempDir w [] ''syz-build'' = Inr tempDir"
  shows "fst (CreateImage w h targetOS targetArch vmType kernelDir userspaceDir cmdlineFile
                sysctlFile imageFile sshkey) \<noteq> []
         \<and> last (fst (CreateImage w h targetOS targetArch vmType kernelDir userspaceDir
                cmdlineFile sysctlFile imageFile sshkey)) = EvRemoveAll tempDir"
  using assms unfolding CreateImage_def
  by (auto simp: trace_defs split: option.splits)

text \<open>
  C4 on four exit paths: success, a failing script, a failing copy and a failing mode
  change. The directory is removed last on each, and the result tells the paths apart.
\<close>

theorem staging_dir_removed_witness:
  "last (fst (CreateImage sample_world sample_heap ''linux'' ''amd64'' ''qemu'' ''/k'' ''/u''
        [] [] ''/out/image'' ''/out/key'')) = EvRemoveAll ''/tmp/syz-build1''
   \<and> snd (CreateImage sample_world sample_heap ''linux'' ''amd64'' ''qemu'' ''/k'' ''/u''
        [] [] ''/out/image'' ''/out/key'') = None
   \<and> last (fst (CreateImage world_script_fails sample_heap ''linux'' ''amd64'' ''qemu'' ''/k''
        ''/u'' [] [] ''/out/image'' ''/out/key'')) = EvRemoveAll ''/tmp/syz-build1''
   \<and> snd (CreateImage world_script_fails sample_heap ''linux'' ''amd64'' ''qemu'' ''/k''
        ''/u'' [] [] ''/out/image'' ''/out/key'')
       = Some (OtherError ''image build failed: exit status 1'')
   \<and> last (fst (CreateImage world_copy_fails sample_heap ''linux'' ''amd64'' ''gce'' ''/k''
        ''/u'' [] [] ''/out/image'' ''/out/key'')) = EvRemoveAll ''/tmp/syz-build1''
   \<and> snd (CreateImage world_copy_fails sample_heap ''linux'' ''amd64'' ''gce'' ''/k''
        ''/u'' [] [] ''/out/image'' ''/out/key'') = Some (OtherError ''no space left'')
   \<and> last (fst (CreateImage world_chmod_fails sample_heap ''linux'' ''amd64'' ''gce'' ''/k''
        ''/u'' [] [] ''/out/image'' ''/out/key'')) = EvRemoveAll ''/tmp/syz-build1''
   \<and> snd (CreateImage world_chmod_fails sample_heap ''linux'' ''amd64'' ''gce'' ''/k''
        ''/u'' [] [] ''/out/image'' ''/out/key'') = Some (OtherError ''not permitted'')"
  using
    staging_dir_removed
      [where targetOS = "''linux''" and targetArch = "''amd64''" and vmType = "''qemu''"
         and w = sample_world and tempDir = "''/tmp/syz-build1''" and h = sample_heap
         and kernelDir = "''/k''" and userspaceDir = "''/u''" and cmdlineFile = "[]"
         and sysctlFile = "[]" and imageFile = "''/out/image''" and sshkey = "''/out/key''"]
    staging_dir_removed
      [where targetOS = "''linux''" and targetArch = "''amd64''" and vmType = "''qemu''"
         and w = world_script_fails and tempDir = "''/tmp/syz-build1''" and h = sample_heap
         and kernelDir = "''/k''" and userspaceDir = "''/u''" and cmdlineFile = "[]"
         and sysctlFile = "[]" and imageFile = "''/out/image''" and sshkey = "''/out/key''"]
    staging_dir_removed
      [where targetOS = "''linux''" and targetArch = "''amd64''" and vmType = "''gce''"
         and w = world_copy_fails and tempDir = "''/tmp/syz-build1''" and h = sample_heap
         and kernelDir = "''/k''" and userspaceDir = "''/u''" and cmdlineFile = "[]"
         and sysctlFile = "[]" and imageFile = "''/out/image''" and sshkey = "''/out/key''"]
    staging_dir_removed
      [where targetOS = "''linux''" and targetArch = "''amd64''" and vmType = "''gce''"
         and w = world_chmod_fails and tempDir = "''/tmp/syz-build1''" and h = sample_heap
         and kernelDir = "''/k''" and userspaceDir = "''/u''" and cmdlineFile = "[]"
         and sysctlFile = "[]" and imageFile = "''/out/image''" and sshkey = "''/out/key''"]
  by (simp add: sample_defs CreateImage_def trace_defs osutil_Command_def osutil_Abs_def
      errorText_def)

text \<open>
  C5, as amended. The claim reads: only a failure of the compile step goes through the
  extractor, and the failures of the config-write and oldconfig steps come back as they
  are. The code wraps the failure of writing the config file in a new error. What holds,
  step by step in the order of the code, each step being reached when the ones before
  it have succeeded:
  \<^item> when the write of the config file fails, \<^verbatim>\<open>Build\<close> returns a new error whose text
    is \<^verbatim>\<open>failed to write config file: \<close> followed by the text of the failure, and the
    store is untouched;
  \<^item> when the change of owner, the sandbox set-up of either command or the oldconfig run
    fails, \<^verbatim>\<open>Build\<close> returns the error of that call itself, and the store is untouched;
  \<^item> when the run of the compile command fails, \<^verbatim>\<open>Build\<close> returns what
    \<^verbatim>\<open>extractRootCause\<close> makes of the error of that run;
  \<^item> when every step succeeds, \<^verbatim>\<open>Build\<close> returns no error and the store is untouched;
  \<^item> when the sandbox set-up of \<^verbatim>\<open>Clean\<close> fails, \<^verbatim>\<open>Clean\<close> returns the error of that
    call itself, and otherwise whatever its run returns, as it is; \<^verbatim>\<open>Clean\<close> has no
    access to the store.
  In the other direction: when \<^verbatim>\<open>Build\<close> or \<^verbatim>\<open>Clean\<close> returns an error, the last call
  of the trace is the step that failed, and the error is related to the error of that
  call as above.
\<close>

theorem Build_error_routing:
  fixes w :: world and h :: heap and dir compiler config :: string
  defines "configFile \<equiv> filepath_Join w dir ''.config''"
      and "oldconfig \<equiv> osutil_Command ''make'' [''oldconfig'', ''CC='' @ compiler]"
      and "bzImage \<equiv> osutil_Command ''make''
             [''bzImage'', ''-j'', strconv_Itoa (runtime_NumCPU w), ''CC='' @ compiler]"
      and "distclean \<equiv> osutil_Command ''make''
             [''distclean'', ''-j'', strconv_Itoa (runtime_NumCPU w)]"
      and "inDir \<equiv> \<lambda>cmd. (sandboxed cmd True True)\<lparr>Dir := dir\<rparr>"
      and "result \<equiv> snd (Build w h dir compiler config)"
  shows
  "(osutil_WriteFile w configFile config = Some err \<longrightarrow>
      result = (h, Some (OtherError (''failed to write config file: '' @ errorText w h err))))
   \<and> (osutil_WriteFile w configFile config = None \<longrightarrow>
      (osutil_SandboxChown w configFile = Some err \<longrightarrow> result = (h, Some err))
    \<and> (osutil_SandboxChown w configFile = None \<longrightarrow>
      (osutil_Sandbox w oldconfig True True = Some err \<longrightarrow> result = (h, Some err))
    \<and> (osutil_Sandbox w oldconfig True True = None \<longrightarrow>
      (osutil_Run w (10 * time_Minute) (inDir oldconfig) = Some err \<longrightarrow>
         result = (h, Some err))
    \<and> (osutil_Run w (10 * time_Minute) (inDir oldconfig) = None \<longrightarrow>
      (osutil_Sandbox w bzImage True True = Some err \<longrightarrow> result = (h, Some err))
    \<and> (osutil_Sandbox w bzImage True True = None \<longrightarrow>
      (osutil_Run w (3 * time_Hour) (inDir bzImage) = Some err \<longrightarrow>
         result = (fst (extractRootCause h err), Some (snd (extractRootCause h err))))
    \<and> (osutil_Run w (3 * time_Hour) (inDir bzImage) = None \<longrightarrow>
         result = (h, None)))))))
   \<and> (osutil_Sandbox w distclean True True = Some err \<longrightarrow> snd (Clean w dir) = Some err)
   \<and> (osutil_Sandbox w distclean True True = None \<longrightarrow>
      snd (Clean w dir) = osutil_Run w (10 * time_Minute) (inDir distclean))
   \<and> (Build w h dir compiler config = (tr, h', Some e) \<longrightarrow>
      tr \<noteq> [] \<and>
      (case last tr of
         EvWriteFile f c \<Rightarrow>
           h' = h \<and> (\<exists>err. osutil_WriteFile w f c = Some err
                 \<and> e = OtherError (''failed to write config file: '' @ errorText w h err))
       | EvSandboxChown f \<Rightarrow> h' = h \<and> osutil_SandboxChown w f = Some e
       | EvSandbox c u n \<Rightarrow> h' = h \<and> osutil_Sandbox w c u n = Some e
       | EvRun t c \<Rightarrow>
           if t = 3 * time_Hour
           then (\<exists>err. osutil_Run w t c = Some err \<and> (h', e) = extractRootCause h err)
           else h' = h \<and> osutil_Run w t c = Some e
       | _ \<Rightarrow> False))
   \<and> (Build w h dir compiler config = (tr, h', None) \<longrightarrow> h' = h)
   \<and> (Clean w dir = (ctr, Some ce) \<longrightarrow>
      ctr \<noteq> [] \<and>
      (case last ctr of
         EvSandbox c u n \<Rightarrow> osutil_Sandbox w c u n = Some ce
       | EvRun t c \<Rightarrow> osutil_Run w t c = Some ce
       | _ \<Rightarrow> False))"
proof -
  have forward_Build:
    "(osutil_WriteFile w configFile config = Some err \<longrightarrow>
      result = (h, Some (OtherError (''failed to write config file: '' @ errorText w h err))))
   \<and> (osutil_WriteFile w configFile config = None \<longrightarrow>
      (osutil_SandboxChown w configFile = Some err \<longrightarrow> result = (h, Some err))
    \<and> (osutil_SandboxChown w configFile = None \<longrightarrow>
      (osutil_Sandbox w oldconfig True True = Some err \<longrightarrow> result = (h, Some err))
    \<and> (osutil_Sandbox w oldconfig True True = None \<longrightarrow>
      (osutil_Run w (10 * time_Minute) (inDir oldconfig) = Some err \<longrightarrow>
         result = (h, Some err))
    \<and> (osutil_Run w (10 * time_Minute) (inDir oldconfig) = None \<longrightarrow>
      (osutil_Sandbox w bzImage True True = Some err \<longrightarrow> result = (h, Some err))
    \<and> (osutil_Sandbox w bzImage True True = None \<longrightarrow>
      (osutil_Run w (3 * time_Hour) (inDir bzImage) = Some err \<longrightarrow>
         result = (fst (extractRootCause h err), Some (snd (extractRootCause h err))))
    \<and> (osutil_Run w (3 * time_Hour) (inDir bzImage) = None \<longrightarrow>
         result = (h, None)))))))"
    unfolding result_def configFile_def oldconfig_def bzImage_def inDir_def Build_def
    by (simp add: trace_defs split: prod.splits)
  have forward_Clean:
    "(osutil_Sandbox w distclean True True = Some err \<longrightarrow> snd (Clean w dir) = Some err)
     \<and> (osutil_Sandbox w distclean True True = None \<longrightarrow>
        snd (Clean w dir) = osutil_Run w (10 * time_Minute) (inDir distclean))"
    unfolding distclean_def inDir_def Clean_def
    by (simp add: trace_defs)
  have back_Build:
    "Build w h dir compiler config = (tr, h', Some e) \<longrightarrow>
      tr \<noteq> [] \<and>
      (case last tr of
         EvWriteFile f c \<Rightarrow>
           h' = h \<and> (\<exists>err. osutil_WriteFile w f c = Some err
                 \<and> e = OtherError (''failed to write config file: '' @ errorText w h err))
       | EvSandboxChown f \<Rightarrow> h' = h \<and> osutil_SandboxChown w f = Some e
       | EvSandbox c u n \<Rightarrow> h' = h \<and> osutil_Sandbox w c u n = Some e
       | EvRun t c \<Rightarrow>
           if t = 3 * time_Hour
           then (\<exists>err. osutil_Run w t c = Some err \<and> (h', e) = extractRootCause h err)
           else h' = h \<and> osutil_Run w t c = Some e
       | _ \<Rightarrow> False)"
    unfolding Build_def
    by (auto simp: trace_defs time_defs split: option.splits prod.splits)
  have ok_Build: "Build w h dir compiler config = (tr, h', None) \<longrightarrow> h' = h"
    unfolding Build_def
    by (auto simp: trace_defs split: option.splits prod.splits)
  have back_Clean:
    "Clean w dir = (ctr, Some ce) \<longrightarrow>
      ctr \<noteq> [] \<and>
      (case last ctr of
         EvSandbox c u n \<Rightarrow> osutil_Sandbox w c u n = Some ce
       | EvRun t c \<Rightarrow> osutil_Run w t c = Some ce
       | _ \<Rightarrow> False)"
    unfolding Clean_def
    by (auto simp: trace_defs split: option.splits)
  show ?thesis
    using forward_Build forward_Clean back_Build ok_Build back_Clean by blast
qed

text \<open>
  The amended C5 in four worlds. Where the compile run fails with a verbose error whose
  output has a compiler error, the error comes back with the extracted title. Where every
  run fails with that verbose error, \<^verbatim>\<open>Build\<close> stops at the oldconfig run and \<^verbatim>\<open>Clean\<close>
  at its only run, and both return the error with its title as it was. Where the write of
  the config file fails, the wrapped error comes back. Where nothing fails, no error
  comes back.
\<close>

theorem Build_error_routing_witness:
  "snd (Build world_compile_fails sample_heap ''/src'' ''gcc'' ''CONFIG_X=y'')
     = (sample_heap(0 := \<lparr>Title = ''a.c:1: error: x'', Output = ''a.c:1: error: x''\<rparr>),
        Some (VerboseErrorPtr 0))
   \<and> extractRootCause sample_heap (VerboseErrorPtr 0)
     = (sample_heap(0 := \<lparr>Title = ''a.c:1: error: x'', Output = ''a.c:1: error: x''\<rparr>),
        VerboseErrorPtr 0)
   \<and> snd (Build world_clean_fails sample_heap ''/src'' ''gcc'' ''CONFIG_X=y'')
     = (sample_heap, Some (VerboseErrorPtr 0))
   \<and> Title (sample_heap 0) = ''failed to run make''
   \<and> snd (Clean world_clean_fails ''/src'') = Some (VerboseErrorPtr 0)
   \<and> snd (Build world_write_fails sample_heap ''/src'' ''gcc'' ''CONFIG_X=y'')
     = (sample_heap, Some (OtherError ''failed to write config file: disk full''))
   \<and> snd (Build sample_world sample_heap ''/src'' ''gcc'' ''CONFIG_X=y'')
     = (sample_heap, None)
   \<and> snd (Clean sample_world ''/src'') = None"
  using
    Build_error_routing
      [where w = world_compile_fails and h = sample_heap and dir = "''/src''"
         and compiler = "''gcc''" and config = "''CONFIG_X=y''"
         and err = "VerboseErrorPtr 0"
         and tr = "fst (Build world_compile_fails sample_heap ''/src'' ''gcc'' ''CONFIG_X=y'')"
         and h' = "sample_heap(0 := \<lparr>Title = ''a.c:1: error: x'', Output = ''a.c:1: error: x''\<rparr>)"
         and e = "VerboseErrorPtr 0"
         and ctr = "fst (Clean world_compile_fails ''/src'')" and ce = "VerboseErrorPtr 0"]
    Build_error_routing
      [where w = world_clean_fails and h = sample_heap and dir = "''/src''"
         and compiler = "''gcc''" and config = "''CONFIG_X=y''"
         and err = "VerboseErrorPtr 0"
         and tr = "fst (Build world_clean_fails sample_heap ''/src'' ''gcc'' ''CONFIG_X=y'')"
         and h' = sample_heap and e = "VerboseErrorPtr 0"
         and ctr = "fst (Clean world_clean_fails ''/src'')" and ce = "VerboseErrorPtr 0"]
    Build_error_routing
      [where w = world_write_fails and h = sample_heap and dir = "''/src''"
         and compiler = "''gcc''" and config = "''CONFIG_X=y''"
         and err = "OtherError ''disk full''"
         and tr = "fst (Build world_write_fails sample_heap ''/src'' ''gcc'' ''CONFIG_X=y'')"
         and h' = sample_heap and e = "OtherError ''failed to write config file: disk full''"
         and ctr = "fst (Clean world_write_fails ''/src'')" and ce = "VerboseErrorPtr 0"]
    Build_error_routing
      [where w = sample_world and h = sample_heap and dir = "''/src''"
         and compiler = "''gcc''" and config = "''CONFIG_X=y''"
         and err = "VerboseErrorPtr 0"
         and tr = "fst (Build sample_world sample_heap ''/src'' ''gcc'' ''CONFIG_X=y'')"
         and h' = sample_heap and e = "VerboseErrorPtr 0"
         and ctr = "fst (Clean sample_world ''/src'')" and ce = "VerboseErrorPtr 0"]
  by (simp add: sample_defs Build_def Clean_def trace_defs time_defs osutil_Command_def
      sandboxed_def extractRootCause_def eval_defs errorText_def)

text \<open>
  C5 as it is written fails: when the write of the config file fails with the error
  \<^verbatim>\<open>disk full\<close>, \<^verbatim>\<open>Build\<close> returns another error, with a longer text.
\<close>

theorem config_write_failure_wrapped:
  "osutil_WriteFile world_write_fails
       (filepath_Join world_write_fails ''/src'' ''.config'') ''CONFIG_X=y''
     = Some (OtherError ''disk full'')
   \<and> snd (snd (Build world_write_fails sample_heap ''/src'' ''gcc'' ''CONFIG_X=y''))
     = Some (OtherError ''failed to write config file: disk full'')
   \<and> OtherError ''failed to write config file: disk full'' \<noteq> OtherError ''disk full''"
  by (simp add: sample_defs Build_def trace_defs errorText_def)

text \<open>
  C8, as amended. The claim reads: the script is invoked as a sandboxed process.
  \<^verbatim>\<open>CreateImage\<close> never calls \<^verbatim>\<open>osutil.Sandbox\<close>. What holds, once the staging
  directory exists and the script has been written into it: exactly one process is
  started, under the one-hour bound; its program is the script file in the staging
  directory, its arguments are the userspace directory and the path of the kernel image
  under the kernel directory, its working directory is the staging directory, and its
  environment is the environment of the caller followed by the three variables; the
  command carries no sandbox restriction and no sandbox call is made. The value of a file
  variable is empty when the file is not given, and an absolute path otherwise, provided
  the working directory is absolute.
\<close>

theorem CreateImage_script_invocation:
  assumes "targetOS = ''linux''" and "targetArch = ''amd64''"
      and "vmType = ''qemu'' \<or> vmType = ''gce''"
      and "ioutil_TempDir w [] ''syz-build'' = Inr tempDir"
      and "osutil_WriteExecFile w (filepath_Join w tempDir ''create.sh'')
             (createImageScript w) = None"
  shows "runs (fst (CreateImage w h targetOS targetArch vmType kernelDir userspaceDir
                cmdlineFile sysctlFile imageFile sshkey)) =
           [(time_Hour,
             \<lparr>Path = filepath_Join w tempDir ''create.sh'',
              Args = [userspaceDir,
                      filepath_Join w kernelDir
                        (filepath_FromSlash w ''arch/x86/boot/bzImage'')],
              Dir = tempDir,
              Env = Some (os_Environ w @
                      [''SYZ_VM_TYPE='' @ vmType,
                       ''SYZ_CMDLINE_FILE='' @ osutil_Abs w cmdlineFile,
                       ''SYZ_SYSCTL_FILE='' @ osutil_Abs w sysctlFile]),
              Sandboxed = None\<rparr>)]
         \<and> \<not> list_ex isSandbox (fst (CreateImage w h targetOS targetArch vmType kernelDir
                userspaceDir cmdlineFile sysctlFile imageFile sshkey))
         \<and> osutil_Abs w [] = []
         \<and> (filepath_IsAbs (osutil_wd w) \<and> name \<noteq> [] \<longrightarrow> filepath_IsAbs (osutil_Abs w name))"
proof -
  have abs: "filepath_IsAbs (osutil_wd w) \<and> name \<noteq> [] \<longrightarrow> filepath_IsAbs (osutil_Abs w name)"
    by (cases "osutil_wd w") (simp_all add: osutil_Abs_def)
  have empty: "osutil_Abs w [] = []"
    by (simp add: osutil_Abs_def)
  have "runs (fst (CreateImage w h targetOS targetArch vmType kernelDir userspaceDir
                cmdlineFile sysctlFile imageFile sshkey)) =
           [(time_Hour,
             \<lparr>Path = filepath_Join w tempDir ''create.sh'',
              Args = [userspaceDir,
                      filepath_Join w kernelDir
                        (filepath_FromSlash w ''arch/x86/boot/bzImage'')],
              Dir = tempDir,
              Env = Some (os_Environ w @
                      [''SYZ_VM_TYPE='' @ vmType,
                       ''SYZ_CMDLINE_FILE='' @ osutil_Abs w cmdlineFile,
                       ''SYZ_SYSCTL_FILE='' @ osutil_Abs w sysctlFile]),
              Sandboxed = None\<rparr>)]"
    using assms unfolding CreateImage_def
    by (auto simp: trace_defs runs_append osutil_Command_def split: option.splits)
  moreover have "\<not> list_ex isSandbox (fst (CreateImage w h targetOS targetArch vmType
                kernelDir userspaceDir cmdlineFile sysctlFile imageFile sshkey))"
    using assms unfolding CreateImage_def
    by (auto simp: trace_defs split: option.splits)
  ultimately show ?thesis using abs empty by blast
qed

text \<open>
  The amended C8 in the world where every call succeeds, with a relative file for the
  command line and no file for the sysctl settings.
\<close>

theorem CreateImage_script_invocation_witness:
  "runs (fst (CreateImage sample_world sample_heap ''linux'' ''amd64'' ''qemu'' ''/k'' ''/u''
        ''cmdline.txt'' [] ''/out/image'' ''/out/key'')) =
     [(time_Hour,
       \<lparr>Path = ''/tmp/syz-build1/create.sh'',
        Args = [''/u'', ''/k/arch/x86/boot/bzImage''],
        Dir = ''/tmp/syz-build1'',
        Env = Some [''PATH=/bin'', ''SYZ_VM_TYPE=qemu'',
                    ''SYZ_CMDLINE_FILE=/work/cmdline.txt'', ''SYZ_SYSCTL_FILE=''],
        Sandboxed = None\<rparr>)]
   \<and> filepath_IsAbs (osutil_Abs sample_world ''cmdline.txt'')"
  using CreateImage_script_invocation
      [where targetOS = "''linux''" and targetArch = "''amd64''" and vmType = "''qemu''"
         and w = sample_world and tempDir = "''/tmp/syz-build1''" and h = sample_heap
         and kernelDir = "''/k''" and userspaceDir = "''/u''"
         and cmdlineFile = "''cmdline.txt''" and sysctlFile = "[]"
         and imageFile = "''/out/image''" and sshkey = "''/out/key''"
         and name = "''cmdline.txt''"]
  by (simp add: sample_defs osutil_Abs_def)

text \<open>
  C8 as it is written fails: the one process that \<^verbatim>\<open>CreateImage\<close> starts carries no
  sandbox restriction and no sandbox call is in the trace, while both processes that
  \<^verbatim>\<open>Build\<close> starts in the same world carry the two restrictions.
\<close>

theorem CreateImage_script_not_sandboxed:
  "map (Sandboxed \<circ> snd)
       (runs (fst (CreateImage sample_world sample_heap ''linux'' ''amd64'' ''qemu'' ''/k''
          ''/u'' [] [] ''/out/image'' ''/out/key''))) = [None]
   \<and> \<not> list_ex isSandbox
       (fst (CreateImage sample_world sample_heap ''linux'' ''amd64'' ''qemu'' ''/k''
          ''/u'' [] [] ''/out/image'' ''/out/key''))
   \<and> map (Sandboxed \<circ> snd)
       (runs (fst (Build sample_world sample_heap ''/src'' ''gcc'' ''CONFIG_X=y'')))
       = [Some (True, True), Some (True, True)]"
  by (simp add: sample_defs CreateImage_def Build_def trace_defs osutil_Command_def
      sandboxed_def)

text \<open>
  C9. Every process is started with a bound: in \<^verbatim>\<open>Build\<close> the oldconfig command runs
  under ten minutes and the compile command under three hours, in \<^verbatim>\<open>Clean\<close> the command
  runs under ten minutes, and in \<^verbatim>\<open>CreateImage\<close> the script runs under one hour.
\<close>

theorem run_timeouts:
  "(\<forall>(t, c) \<in> set (runs (fst (Build w h dir compiler config))).
       (t = 10 * time_Minute \<and> Args c = [''oldconfig'', ''CC='' @ compiler])
       \<or> (t = 3 * time_Hour
          \<and> Args c = [''bzImage'', ''-j'', strconv_Itoa (runtime_NumCPU w), ''CC='' @ compiler]))
   \<and> (\<forall>(t, c) \<in> set (runs (fst (Clean w dir))).
       t = 10 * time_Minute \<and> Args c = [''distclean'', ''-j'', strconv_Itoa (runtime_NumCPU w)])
   \<and> (\<forall>(t, c) \<in> set (runs (fst (CreateImage w h targetOS targetArch vmType kernelDir
         userspaceDir cmdlineFile sysctlFile imageFile sshkey))). t = time_Hour)
   \<and> 10 * time_Minute = 600 * time_Second
   \<and> 3 * time_Hour = 10800 * time_Second
   \<and> time_Hour = 3600 * time_Second"
proof (intro conjI)
  show "\<forall>(t, c) \<in> set (runs (fst (Build w h dir compiler config))).
       (t = 10 * time_Minute \<and> Args c = [''oldconfig'', ''CC='' @ compiler])
       \<or> (t = 3 * time_Hour
          \<and> Args c = [''bzImage'', ''-j'', strconv_Itoa (runtime_NumCPU w), ''CC='' @ compiler])"
    unfolding Build_def
    by (auto simp: trace_defs sandboxed_def osutil_Command_def
        split: option.splits prod.splits)
  show "\<forall>(t, c) \<in> set (runs (fst (Clean w dir))).
       t = 10 * time_Minute \<and> Args c = [''distclean'', ''-j'', strconv_Itoa (runtime_NumCPU w)]"
    unfolding Clean_def
    by (auto simp: trace_defs sandboxed_def osutil_Command_def split: option.splits)
  show "\<forall>(t, c) \<in> set (runs (fst (CreateImage w h targetOS targetArch vmType kernelDir
         userspaceDir cmdlineFile sysctlFile imageFile sshkey))). t = time_Hour"
    unfolding CreateImage_def
    by (auto simp: trace_defs runs_append split: option.splits sum.splits)
qed (simp_all add: time_defs)

text \<open>C9 in the world where every call succeeds: the bounds of the processes, in order.\<close>

theorem run_timeouts_witness:
  "map fst (runs (fst (Build sample_world sample_heap ''/src'' ''gcc'' ''CONFIG_X=y'')))
     = [600000000000, 10800000000000]
   \<and> map fst (runs (fst (Clean sample_world ''/src''))) = [600000000000]
   \<and> map fst (runs (fst (CreateImage sample_world sample_heap ''linux'' ''amd64'' ''qemu''
        ''/k'' ''/u'' [] [] ''/out/image'' ''/out/key''))) = [3600000000000]"
  using run_timeouts
      [where w = sample_world and h = sample_heap and dir = "''/src''"
         and compiler = "''gcc''" and config = "''CONFIG_X=y''"
         and targetOS = "''linux''" and targetArch = "''amd64''" and vmType = "''qemu''"
         and kernelDir = "''/k''" and userspaceDir = "''/u''" and cmdlineFile = "[]"
         and sysctlFile = "[]" and imageFile = "''/out/image''" and sshkey = "''/out/key''"]
  by (simp add: sample_defs CreateImage_def Build_def Clean_def trace_defs time_defs
      osutil_Command_def sandboxed_def)

end
